theory Spec2Isabelle
  imports Complex_Main
begin

section \<open>Data model\<close>

text \<open>
  The per-frame simulation of \<^verbatim>\<open>cubemaps_environment_mapping.cpp\<close>: the speed,
  heading and position update of the car, the wall test and the chase camera (lines 249
  to 300 of \<^verbatim>\<open>main\<close>, and \<^verbatim>\<open>checkCollision\<close>).

  The C++ \<^verbatim>\<open>float\<close> is modelled by \<^typ>\<open>real\<close>: arithmetic is exact, \<^verbatim>\<open>fabs\<close> is
  the absolute value, and \<^verbatim>\<open>glm::radians\<close>, \<^verbatim>\<open>sin\<close> and \<^verbatim>\<open>cos\<close> are the real
  functions. Rounding, infinities and NaN are outside this model.
\<close>

text \<open>\<^verbatim>\<open>glm::vec3\<close>: three components, with the operators the frame uses.\<close>

record vec3 =
  vx :: real
  vy :: real
  vz :: real

definition Vec3 :: "real \<Rightarrow> real \<Rightarrow> real \<Rightarrow> vec3" where
  "Vec3 a b c = \<lparr>vx = a, vy = b, vz = c\<rparr>"

definition vadd :: "vec3 \<Rightarrow> vec3 \<Rightarrow> vec3" where
  "vadd a b = \<lparr>vx = vx a + vx b, vy = vy a + vy b, vz = vz a + vz b\<rparr>"

definition vsub :: "vec3 \<Rightarrow> vec3 \<Rightarrow> vec3" where
  "vsub a b = \<lparr>vx = vx a - vx b, vy = vy a - vy b, vz = vz a - vz b\<rparr>"

definition vscale :: "vec3 \<Rightarrow> real \<Rightarrow> vec3" where
  "vscale a c = \<lparr>vx = vx a * c, vy = vy a * c, vz = vz a * c\<rparr>"

text \<open>
  \<^verbatim>\<open>glm::clamp(x, lo, hi)\<close> is \<^verbatim>\<open>min(max(x, lo), hi)\<close>; \<^verbatim>\<open>glm::mix(x, y, a)\<close> is
  \<^verbatim>\<open>x * (1 - a) + y * a\<close>, componentwise on vectors; \<^verbatim>\<open>glm::radians\<close> converts degrees.
\<close>

definition clamp :: "real \<Rightarrow> real \<Rightarrow> real \<Rightarrow> real" where
  "clamp x lo hi = min (max x lo) hi"

definition mix :: "vec3 \<Rightarrow> vec3 \<Rightarrow> real \<Rightarrow> vec3" where
  "mix a b t = vadd (vscale a (1 - t)) (vscale b t)"

definition radians :: "real \<Rightarrow> real" where
  "radians d = d * pi / 180"

text \<open>The globals of the program that the frame reads and never writes.\<close>

definition cameraSmoothSpeed :: real where "cameraSmoothSpeed = 6"
definition carSize :: vec3 where "carSize = Vec3 (3/2) 1 3"
definition wallPos :: vec3 where "wallPos = Vec3 0 2 20"
definition wallSize :: vec3 where "wallSize = Vec3 4 4 (1/2)"

definition MAX_SPEED :: real where "MAX_SPEED = 12"
definition ACCELERATION :: real where "ACCELERATION = 20"
definition BRAKE :: real where "BRAKE = 30"
definition FRICTION :: real where "FRICTION = 6"
definition TURN_SPEED :: real where "TURN_SPEED = 90"

text \<open>The globals the frame writes: the car and the camera.\<close>

record state =
  carPos :: vec3
  carYaw :: real
  carSpeed :: real
  cameraPos :: vec3

text \<open>The four entries of \<^verbatim>\<open>keys\<close> that the frame reads.\<close>

record keys =
  keyW :: bool
  keyS :: bool
  keyA :: bool
  keyD :: bool

section \<open>Operations\<close>

text \<open>\<^verbatim>\<open>checkCollision\<close>, lines 61 to 67.\<close>

definition checkCollision :: "vec3 \<Rightarrow> vec3 \<Rightarrow> vec3 \<Rightarrow> vec3 \<Rightarrow> bool" where
  "checkCollision posA sizeA posB sizeB =
     ((\<bar>vx posA - vx posB\<bar> * 2 < vx sizeA + vx sizeB) \<and>
      (\<bar>vy posA - vy posB\<bar> * 2 < vy sizeA + vy sizeB) \<and>
      (\<bar>vz posA - vz posB\<bar> * 2 < vz sizeA + vz sizeB))"

text \<open>Lines 251 to 258: the two inputs, each built by adding and subtracting 1.\<close>

definition accelInput :: "keys \<Rightarrow> real" where
  "accelInput k =
     (let a0 = 0;
          a1 = (if keyW k then a0 + 1 else a0);
          a2 = (if keyS k then a1 - 1 else a1)
      in a2)"

definition steerInput :: "keys \<Rightarrow> real" where
  "steerInput k =
     (let s0 = 0;
          s1 = (if keyA k then s0 + 1 else s0);
          s2 = (if keyD k then s1 - 1 else s1)
      in s2)"

text \<open>Lines 261 to 269: acceleration, braking or friction, chosen by the accelerator input.\<close>

definition apply_regime :: "real \<Rightarrow> real \<Rightarrow> real \<Rightarrow> real" where
  "apply_regime accel deltaTime speed =
     (if accel > 0 then speed + ACCELERATION * accel * deltaTime
      else if accel < 0 then speed + (- BRAKE) * (- accel) * deltaTime
      else (if speed > 0 then speed - FRICTION * deltaTime
            else if speed < 0 then speed + FRICTION * deltaTime
            else speed))"

text \<open>Lines 271 to 274: small speeds become zero, then the two bounds.\<close>

definition clamp_speed :: "real \<Rightarrow> real" where
  "clamp_speed speed =
     (let s1 = (if \<bar>speed\<bar> < 1/100 then 0 else speed);
          s2 = (if s1 > MAX_SPEED then MAX_SPEED else s1);
          s3 = (if s2 < - MAX_SPEED * (1/2) then - MAX_SPEED * (1/2) else s2)
      in s3)"

definition update_speed :: "real \<Rightarrow> real \<Rightarrow> real \<Rightarrow> real" where
  "update_speed accel deltaTime speed = clamp_speed (apply_regime accel deltaTime speed)"

text \<open>Lines 277 and 278: the heading, with the sign of the speed just computed.\<close>

definition turnAmount :: "real \<Rightarrow> real \<Rightarrow> real" where
  "turnAmount speed deltaTime = TURN_SPEED * (if speed \<ge> 0 then 1 else -1) * deltaTime"

definition update_yaw :: "real \<Rightarrow> real \<Rightarrow> real \<Rightarrow> real \<Rightarrow> real" where
  "update_yaw steer speed deltaTime yaw = yaw + steer * turnAmount speed deltaTime"

text \<open>Line 281 (and line 237): the direction the car faces.\<close>

definition forward :: "real \<Rightarrow> vec3" where
  "forward yaw = Vec3 (sin (radians yaw)) 0 (cos (radians yaw))"

text \<open>Line 298 (and line 238): where the camera wants to be.\<close>

definition desiredCameraPos :: "vec3 \<Rightarrow> vec3 \<Rightarrow> vec3" where
  "desiredCameraPos pos fwd = vadd (vsub pos (vscale fwd 8)) (Vec3 0 3 0)"

text \<open>
  One pass of the render loop, lines 249 to 300, with the time step and the keys as
  arguments: the state is read, updated in the order of the source and returned.
\<close>

definition frame :: "keys \<Rightarrow> real \<Rightarrow> state \<Rightarrow> state" where
  "frame k deltaTime s =
     (let speed = update_speed (accelInput k) deltaTime (carSpeed s);
          yaw = update_yaw (steerInput k) speed deltaTime (carYaw s);
          fwd = forward yaw;
          nextPos = vadd (carPos s) (vscale (vscale fwd speed) deltaTime);
          hit = checkCollision nextPos carSize wallPos wallSize;
          pos = (if \<not> hit then nextPos else carPos s);
          speed' = (if \<not> hit then speed else 0);
          cam = mix (cameraPos s) (desiredCameraPos pos fwd)
                  (clamp (cameraSmoothSpeed * deltaTime) 0 1)
      in \<lparr>carPos = pos, carYaw = yaw, carSpeed = speed', cameraPos = cam\<rparr>)"

text \<open>
  The intermediate values of a frame, named so that statements can refer to them: the
  speed after lines 261 to 274, the heading after line 278, the tentative position of
  line 283 and the test of line 286.
\<close>

definition frameSpeed :: "keys \<Rightarrow> real \<Rightarrow> state \<Rightarrow> real" where
  "frameSpeed k deltaTime s = update_speed (accelInput k) deltaTime (carSpeed s)"

definition frameYaw :: "keys \<Rightarrow> real \<Rightarrow> state \<Rightarrow> real" where
  "frameYaw k deltaTime s =
     update_yaw (steerInput k) (frameSpeed k deltaTime s) deltaTime (carYaw s)"

definition nextPos :: "keys \<Rightarrow> real \<Rightarrow> state \<Rightarrow> vec3" where
  "nextPos k deltaTime s =
     vadd (carPos s)
       (vscale (vscale (forward (frameYaw k deltaTime s)) (frameSpeed k deltaTime s)) deltaTime)"

definition hitsWall :: "keys \<Rightarrow> real \<Rightarrow> state \<Rightarrow> bool" where
  "hitsWall k deltaTime s = checkCollision (nextPos k deltaTime s) carSize wallPos wallSize"

text \<open>The state at start-up: lines 29 to 35, and the camera of lines 236 to 239.\<close>

definition initial :: state where
  "initial = \<lparr>carPos = Vec3 0 0 0, carYaw = 0, carSpeed = 0,
              cameraPos = desiredCameraPos (Vec3 0 0 0) (forward 0)\<rparr>"

section \<open>The operations a frame executes\<close>

text \<open>
  The same lines once more, each float operation recorded as it is executed: the
  operators \<^verbatim>\<open>+\<close>, \<^verbatim>\<open>-\<close>, \<^verbatim>\<open>*\<close>, \<^verbatim>\<open>/\<close>, the unary minus, the comparisons, and the calls
  of \<^verbatim>\<open>fabs\<close>, \<^verbatim>\<open>sin\<close> and \<^verbatim>\<open>cos\<close>. A traced value is the value together with the
  operations that produced it, in the order of execution. Reads of variables and of
  \<^verbatim>\<open>keys\<close>, assignments, conversions and the tests of booleans are not arithmetic and are
  not recorded. Of these operations only the division can be undefined.
\<close>

datatype oper = OpAdd | OpSub | OpMul | OpDiv | OpNeg | OpCmp | OpFabs | OpSin | OpCos

type_synonym 'a traced = "'a \<times> oper list"

text \<open>A constant or a variable; an operation on one and on two operands.\<close>

definition lit :: "'a \<Rightarrow> 'a traced" where
  "lit x = (x, [])"

definition prim1 :: "oper list \<Rightarrow> ('a \<Rightarrow> 'b) \<Rightarrow> 'a traced \<Rightarrow> 'b traced" where
  "prim1 ops f a = (f (fst a), snd a @ ops)"

definition prim2 ::
  "oper list \<Rightarrow> ('a \<Rightarrow> 'b \<Rightarrow> 'c) \<Rightarrow> 'a traced \<Rightarrow> 'b traced \<Rightarrow> 'c traced" where
  "prim2 ops f a b = (f (fst a) (fst b), snd a @ snd b @ ops)"

text \<open>One statement after another: the second may use the value of the first.\<close>

definition thenT :: "'a traced \<Rightarrow> ('a \<Rightarrow> 'b traced) \<Rightarrow> 'b traced" where
  "thenT m f = (fst (f (fst m)), snd m @ snd (f (fst m)))"

text \<open>
  \<^verbatim>\<open>if\<close> and \<^verbatim>\<open>?:\<close> execute the condition and the branch taken; \<^verbatim>\<open>&&\<close> executes its
  right operand only when the left one holds.
\<close>

definition iteT :: "bool traced \<Rightarrow> 'a traced \<Rightarrow> 'a traced \<Rightarrow> 'a traced" where
  "iteT c x y = (if fst c then (fst x, snd c @ snd x) else (fst y, snd c @ snd y))"

definition andT :: "bool traced \<Rightarrow> bool traced \<Rightarrow> bool traced" where
  "andT a b = (if fst a then (fst b, snd a @ snd b) else (False, snd a))"

text \<open>The float operators and library calls of the source.\<close>

definition addT :: "real traced \<Rightarrow> real traced \<Rightarrow> real traced" where
  "addT = prim2 [OpAdd] (+)"

definition subT :: "real traced \<Rightarrow> real traced \<Rightarrow> real traced" where
  "subT = prim2 [OpSub] (-)"

definition mulT :: "real traced \<Rightarrow> real traced \<Rightarrow> real traced" where
  "mulT = prim2 [OpMul] (*)"

definition divT :: "real traced \<Rightarrow> real traced \<Rightarrow> real traced" where
  "divT = prim2 [OpDiv] (/)"

definition negT :: "real traced \<Rightarrow> real traced" where
  "negT = prim1 [OpNeg] uminus"

definition ltT :: "real traced \<Rightarrow> real traced \<Rightarrow> bool traced" where
  "ltT = prim2 [OpCmp] (<)"

definition gtT :: "real traced \<Rightarrow> real traced \<Rightarrow> bool traced" where
  "gtT = prim2 [OpCmp] (>)"

definition geT :: "real traced \<Rightarrow> real traced \<Rightarrow> bool traced" where
  "geT = prim2 [OpCmp] (\<ge>)"

definition fabsT :: "real traced \<Rightarrow> real traced" where
  "fabsT = prim1 [OpFabs] abs"

definition sinT :: "real traced \<Rightarrow> real traced" where
  "sinT = prim1 [OpSin] sin"

definition cosT :: "real traced \<Rightarrow> real traced" where
  "cosT = prim1 [OpCos] cos"

text \<open>
  The operators of \<^verbatim>\<open>glm::vec3\<close> work on the three components. \<^verbatim>\<open>glm::radians\<close>
  multiplies by the constant \<open>pi / 180\<close>; \<^verbatim>\<open>glm::clamp\<close> is a \<^verbatim>\<open>max\<close> and a \<^verbatim>\<open>min\<close>, two
  comparisons; \<^verbatim>\<open>glm::mix\<close> on vectors is one subtraction, two vector by scalar products
  and a vector sum.
\<close>

definition vaddT :: "vec3 traced \<Rightarrow> vec3 traced \<Rightarrow> vec3 traced" where
  "vaddT = prim2 [OpAdd, OpAdd, OpAdd] vadd"

definition vsubT :: "vec3 traced \<Rightarrow> vec3 traced \<Rightarrow> vec3 traced" where
  "vsubT = prim2 [OpSub, OpSub, OpSub] vsub"

definition vscaleT :: "vec3 traced \<Rightarrow> real traced \<Rightarrow> vec3 traced" where
  "vscaleT = prim2 [OpMul, OpMul, OpMul] vscale"

definition radiansT :: "real traced \<Rightarrow> real traced" where
  "radiansT = prim1 [OpMul] radians"

definition clampT :: "real traced \<Rightarrow> real traced \<Rightarrow> real traced \<Rightarrow> real traced" where
  "clampT x lo hi =
     (clamp (fst x) (fst lo) (fst hi), snd x @ snd lo @ snd hi @ [OpCmp, OpCmp])"

definition mixT :: "vec3 traced \<Rightarrow> vec3 traced \<Rightarrow> real traced \<Rightarrow> vec3 traced" where
  "mixT a b t =
     (mix (fst a) (fst b) (fst t),
      snd a @ snd b @ snd t @
      [OpSub, OpMul, OpMul, OpMul, OpMul, OpMul, OpMul, OpAdd, OpAdd, OpAdd])"

text \<open>\<^verbatim>\<open>checkCollision\<close>, lines 64 to 66: one axis, and the three joined by \<^verbatim>\<open>&&\<close>.\<close>

definition axisT :: "real \<Rightarrow> real \<Rightarrow> real \<Rightarrow> real \<Rightarrow> bool traced" where
  "axisT a sa b sb = ltT (mulT (fabsT (subT (lit a) (lit b))) (lit 2)) (addT (lit sa) (lit sb))"

definition checkCollisionT :: "vec3 \<Rightarrow> vec3 \<Rightarrow> vec3 \<Rightarrow> vec3 \<Rightarrow> bool traced" where
  "checkCollisionT posA sizeA posB sizeB =
     andT (andT (axisT (vx posA) (vx sizeA) (vx posB) (vx sizeB))
                (axisT (vy posA) (vy sizeA) (vy posB) (vy sizeB)))
          (axisT (vz posA) (vz sizeA) (vz posB) (vz sizeB))"

text \<open>Lines 251 to 258.\<close>

definition accelInputT :: "keys \<Rightarrow> real traced" where
  "accelInputT k =
     (let a0 = lit 0;
          a1 = (if keyW k then addT a0 (lit 1) else a0);
          a2 = (if keyS k then subT a1 (lit 1) else a1)
      in a2)"

definition steerInputT :: "keys \<Rightarrow> real traced" where
  "steerInputT k =
     (let s0 = lit 0;
          s1 = (if keyA k then addT s0 (lit 1) else s0);
          s2 = (if keyD k then subT s1 (lit 1) else s1)
      in s2)"

text \<open>Lines 261 to 269.\<close>

definition apply_regimeT :: "real \<Rightarrow> real \<Rightarrow> real \<Rightarrow> real traced" where
  "apply_regimeT accel deltaTime speed =
     iteT (gtT (lit accel) (lit 0))
       (addT (lit speed) (mulT (mulT (lit ACCELERATION) (lit accel)) (lit deltaTime)))
       (iteT (ltT (lit accel) (lit 0))
          (addT (lit speed)
             (mulT (mulT (negT (lit BRAKE)) (negT (lit accel))) (lit deltaTime)))
          (iteT (gtT (lit speed) (lit 0))
             (subT (lit speed) (mulT (lit FRICTION) (lit deltaTime)))
             (iteT (ltT (lit speed) (lit 0))
                (addT (lit speed) (mulT (lit FRICTION) (lit deltaTime)))
                (lit speed))))"

text \<open>Lines 271 to 274.\<close>

definition clamp_speedT :: "real \<Rightarrow> real traced" where
  "clamp_speedT speed =
     thenT (iteT (ltT (fabsT (lit speed)) (lit (1/100))) (lit 0) (lit speed)) (\<lambda>s1.
     thenT (iteT (gtT (lit s1) (lit MAX_SPEED)) (lit MAX_SPEED) (lit s1)) (\<lambda>s2.
     iteT (ltT (lit s2) (mulT (negT (lit MAX_SPEED)) (lit (1/2))))
       (mulT (negT (lit MAX_SPEED)) (lit (1/2)))
       (lit s2)))"

definition update_speedT :: "real \<Rightarrow> real \<Rightarrow> real \<Rightarrow> real traced" where
  "update_speedT accel deltaTime speed =
     thenT (apply_regimeT accel deltaTime speed) clamp_speedT"

text \<open>Lines 277 and 278.\<close>

definition turnAmountT :: "real \<Rightarrow> real \<Rightarrow> real traced" where
  "turnAmountT speed deltaTime =
     mulT (mulT (lit TURN_SPEED) (iteT (geT (lit speed) (lit 0)) (lit 1) (negT (lit 1))))
       (lit deltaTime)"

definition update_yawT :: "real \<Rightarrow> real \<Rightarrow> real \<Rightarrow> real \<Rightarrow> real traced" where
  "update_yawT steer speed deltaTime yaw =
     thenT (turnAmountT speed deltaTime) (\<lambda>turn. addT (lit yaw) (mulT (lit steer) (lit turn)))"

text \<open>Line 281, and line 298.\<close>

definition forwardT :: "real \<Rightarrow> vec3 traced" where
  "forwardT yaw =
     prim2 [] (\<lambda>a c. Vec3 a 0 c) (sinT (radiansT (lit yaw))) (cosT (radiansT (lit yaw)))"

definition desiredCameraPosT :: "vec3 \<Rightarrow> vec3 \<Rightarrow> vec3 traced" where
  "desiredCameraPosT pos fwd =
     vaddT (vsubT (lit pos) (vscaleT (lit fwd) (lit 8))) (lit (Vec3 0 3 0))"

text \<open>
  Lines 249 to 301. The last statement is the camera target of line 301, which the
  renderer reads and the state does not keep.
\<close>

definition frameT :: "keys \<Rightarrow> real \<Rightarrow> state \<Rightarrow> state traced" where
  "frameT k deltaTime s =
     thenT (accelInputT k) (\<lambda>accel.
     thenT (steerInputT k) (\<lambda>steer.
     thenT (update_speedT accel deltaTime (carSpeed s)) (\<lambda>speed.
     thenT (update_yawT steer speed deltaTime (carYaw s)) (\<lambda>yaw.
     thenT (forwardT yaw) (\<lambda>fwd.
     thenT (vaddT (lit (carPos s)) (vscaleT (vscaleT (lit fwd) (lit speed)) (lit deltaTime)))
       (\<lambda>nextPos.
     thenT (checkCollisionT nextPos carSize wallPos wallSize) (\<lambda>hit.
     thenT (lit (if \<not> hit then nextPos else carPos s)) (\<lambda>pos.
     thenT (lit (if \<not> hit then speed else 0)) (\<lambda>speed'.
     thenT (desiredCameraPosT pos fwd) (\<lambda>desired.
     thenT (mixT (lit (cameraPos s)) (lit desired)
              (clampT (mulT (lit cameraSmoothSpeed) (lit deltaTime)) (lit 0) (lit 1)))
       (\<lambda>cam.
     thenT (vaddT (lit pos) (lit (Vec3 0 1 0))) (\<lambda>cameraTarget.
     lit \<lparr>carPos = pos, carYaw = yaw, carSpeed = speed', cameraPos = cam\<rparr>))))))))))))"

text \<open>
  The loop does divide once, after the update: line 303 computes the aspect ratio of the
  window, lines 20 and 21, for the projection.
\<close>

definition SCR_WIDTH :: real where "SCR_WIDTH = 1280"
definition SCR_HEIGHT :: real where "SCR_HEIGHT = 720"

definition aspectT :: "real traced" where
  "aspectT = divT (lit SCR_WIDTH) (lit SCR_HEIGHT)"

section \<open>Runs\<close>

text \<open>Several frames in a row, each with its own keys and time step.\<close>

fun run :: "(keys \<times> real) list \<Rightarrow> state \<Rightarrow> state" where
  "run [] s = s"
| "run ((k, deltaTime) # fs) s = run fs (frame k deltaTime s)"

text \<open>No frame of the run has its move rejected by the wall.\<close>

fun clearRun :: "(keys \<times> real) list \<Rightarrow> state \<Rightarrow> bool" where
  "clearRun [] s = True"
| "clearRun ((k, deltaTime) # fs) s =
     (\<not> hitsWall k deltaTime s \<and> clearRun fs (frame k deltaTime s))"

text \<open>The time the frames of a run take together.\<close>

fun elapsed :: "(keys \<times> real) list \<Rightarrow> real" where
  "elapsed [] = 0"
| "elapsed ((k, deltaTime) # fs) = deltaTime + elapsed fs"

text \<open>
  The forward key is held, the reverse key is not, and no time step is negative, in
  every frame of the run.
\<close>

definition forwardHeld :: "(keys \<times> real) list \<Rightarrow> bool" where
  "forwardHeld fs = list_all (\<lambda>(k, deltaTime). keyW k \<and> \<not> keyS k \<and> 0 \<le> deltaTime) fs"

text \<open>
  The first frame of the run, if there is one, adds at least the 0.01 of line 271 to the
  speed.
\<close>

definition firstFrameMoves :: "(keys \<times> real) list \<Rightarrow> bool" where
  "firstFrameMoves fs =
     (case fs of [] \<Rightarrow> True | (k, deltaTime) # _ \<Rightarrow> 1/100 \<le> ACCELERATION * deltaTime)"



section \<open>Concrete inputs\<close>

text \<open>Key states: nothing pressed, W, S, A, and W with A.\<close>

definition noKeys :: keys where
  "noKeys = \<lparr>keyW = False, keyS = False, keyA = False, keyD = False\<rparr>"

definition keysW :: keys where
  "keysW = \<lparr>keyW = True, keyS = False, keyA = False, keyD = False\<rparr>"


definition keysA :: keys where
  "keysA = \<lparr>keyW = False, keyS = False, keyA = True, keyD = False\<rparr>"

definition keysWA :: keys where
  "keysWA = \<lparr>keyW = True, keyS = False, keyA = True, keyD = False\<rparr>"

text \<open>
  The car in front of the wall, its front face on the wall's near face
  (\<open>18.25 + 3/2 = 20 - 0.5/2\<close>), heading straight at it at 5 units per second.
\<close>

definition atWall :: state where
  "atWall = \<lparr>carPos = Vec3 0 0 (73/4), carYaw = 0, carSpeed = 5,
             cameraPos = Vec3 0 3 (41/4)\<rparr>"

text \<open>The same place, at rest, the heading 9 degrees off.\<close>

definition facingWall :: state where
  "facingWall = \<lparr>carPos = Vec3 0 0 (73/4), carYaw = -9, carSpeed = 0,
                 cameraPos = Vec3 0 3 (41/4)\<rparr>"

text \<open>The car at the origin rolling forward at 0.05 units per second.\<close>

definition coasting :: state where
  "coasting = \<lparr>carPos = Vec3 0 0 0, carYaw = 0, carSpeed = 1/20,
               cameraPos = Vec3 0 3 (-8)\<rparr>"


text \<open>The car at the origin at rest, the camera far away.\<close>

definition farCamera :: state where
  "farCamera = \<lparr>carPos = Vec3 0 0 0, carYaw = 0, carSpeed = 0,
                cameraPos = Vec3 40 50 60\<rparr>"

text \<open>Two frames of half a second with W held; one frame of 0.4 milliseconds with W held.\<close>

definition twoHalves :: "(keys \<times> real) list" where
  "twoHalves = [(keysW, 1/2), (keysW, 1/2)]"

definition shortFrame :: "(keys \<times> real) list" where
  "shortFrame = [(keysW, 1/2500)]"



section \<open>The frame in terms of its intermediate values\<close>

lemmas eval_defs =
  frame_def frameSpeed_def frameYaw_def nextPos_def hitsWall_def
  accelInput_def steerInput_def update_speed_def apply_regime_def clamp_speed_def
  update_yaw_def turnAmount_def forward_def radians_def desiredCameraPos_def
  checkCollision_def mix_def clamp_def Vec3_def vadd_def vsub_def vscale_def
  carSize_def wallPos_def wallSize_def cameraSmoothSpeed_def
  MAX_SPEED_def ACCELERATION_def BRAKE_def FRICTION_def TURN_SPEED_def Let_def

lemma frame_carYaw: "carYaw (frame k dt s) = frameYaw k dt s"
  by (simp add: frame_def frameYaw_def frameSpeed_def Let_def)

lemma frame_carPos:
  "carPos (frame k dt s) = (if hitsWall k dt s then carPos s else nextPos k dt s)"
  by (simp add: frame_def hitsWall_def nextPos_def frameYaw_def frameSpeed_def Let_def)

lemma frame_carSpeed:
  "carSpeed (frame k dt s) = (if hitsWall k dt s then 0 else frameSpeed k dt s)"
  by (simp add: frame_def hitsWall_def nextPos_def frameYaw_def frameSpeed_def Let_def)

lemma frame_cameraPos:
  "cameraPos (frame k dt s) =
     mix (cameraPos s)
       (desiredCameraPos (carPos (frame k dt s)) (forward (carYaw (frame k dt s))))
       (clamp (cameraSmoothSpeed * dt) 0 1)"
  by (simp add: frame_def Let_def)

lemma vadd_zero: "vadd p (vscale v 0) = p"
  by (simp add: vadd_def vscale_def)

lemma mix_zero: "mix a b 0 = a"
  by (simp add: mix_def vadd_def vscale_def)

lemma mix_one: "mix a b 1 = b"
  by (simp add: mix_def vadd_def vscale_def)


lemma clamp_speed_forward: "1/100 \<le> v \<Longrightarrow> clamp_speed v = min MAX_SPEED v"
  by (simp add: clamp_speed_def MAX_SPEED_def Let_def)

section \<open>The wall\<close>

text \<open>
  Claim C1. The tentative position of a frame is the current position plus forward times
  speed times the time step. If the car's box at the tentative position overlaps the
  wall's box, the position after the frame is the position before it and the speed after
  the frame is 0, whatever the speed was; if it does not overlap, the position after the
  frame is the tentative position.
\<close>

theorem wall_rejects_move:
  "nextPos k dt s =
     vadd (carPos s) (vscale (vscale (forward (frameYaw k dt s)) (frameSpeed k dt s)) dt) \<and>
   carPos (frame k dt s) =
     (if checkCollision (nextPos k dt s) carSize wallPos wallSize then carPos s
      else nextPos k dt s) \<and>
   carSpeed (frame k dt s) =
     (if checkCollision (nextPos k dt s) carSize wallPos wallSize then 0
      else frameSpeed k dt s)"
  using frame_carPos [of k dt s] frame_carSpeed [of k dt s]
  by (simp add: hitsWall_def nextPos_def)

text \<open>
  The car with its front face on the wall, at 5 units per second, W held for a tenth of a
  second: the speed becomes 7, the tentative position is 0.7 further, inside the wall, and
  the frame leaves the car where it was, at speed 0.
\<close>

theorem wall_rejects_move_witness:
  "carSpeed atWall = 5 \<and> frameSpeed keysW (1/10) atWall = 7 \<and>
   nextPos keysW (1/10) atWall = Vec3 0 0 (379/20) \<and>
   checkCollision (nextPos keysW (1/10) atWall) carSize wallPos wallSize \<and>
   carPos (frame keysW (1/10) atWall) = carPos atWall \<and>
   carSpeed (frame keysW (1/10) atWall) = 0"
proof -
  have v: "frameSpeed keysW (1/10) atWall = 7"
    by (simp add: eval_defs keysW_def atWall_def)
  have n: "nextPos keysW (1/10) atWall = Vec3 0 0 (379/20)"
    by (simp add: eval_defs keysW_def atWall_def)
  have c: "checkCollision (nextPos keysW (1/10) atWall) carSize wallPos wallSize"
    unfolding n by (simp add: checkCollision_def Vec3_def carSize_def wallPos_def wallSize_def)
  from wall_rejects_move [of keysW "1/10" atWall] c
  have "carPos (frame keysW (1/10) atWall) = carPos atWall \<and>
        carSpeed (frame keysW (1/10) atWall) = 0"
    by simp
  with v n c show ?thesis by (simp add: atWall_def)
qed

section \<open>Friction\<close>

text \<open>
  Claim C2 says that friction never takes the speed past zero. The source subtracts
  \<open>FRICTION * deltaTime\<close> from a positive speed without looking at the result, and line 271
  only catches a result within 0.01 of zero. At 0.05 units per second and a frame of 16
  milliseconds, with no key pressed, the speed becomes -0.046; the next such frame brings
  it back to 0.05, so the car never comes to rest.
\<close>

theorem friction_overshoots:
  "accelInput noKeys = 0 \<and>
   apply_regime 0 (2/125) (1/20) = - (23/500) \<and>
   update_speed 0 (2/125) (1/20) = - (23/500) \<and>
   update_speed 0 (2/125) (- (23/500)) = 1/20 \<and>
   carSpeed coasting = 1/20 \<and>
   carSpeed (frame noKeys (2/125) coasting) = - (23/500)"
  by (simp add: eval_defs noKeys_def coasting_def)

section \<open>The overlap test\<close>

text \<open>
  Claim C3. \<open>checkCollision\<close> holds exactly when twice the distance of the centres is
  strictly below the sum of the sizes on each of the three axes; so two boxes that touch
  on some axis, twice the distance being equal to the sum of the sizes there, do not
  overlap, whatever the other axes say.
\<close>

theorem checkCollision_strict:
  "(checkCollision posA sizeA posB sizeB \<longleftrightarrow>
      \<bar>vx posA - vx posB\<bar> * 2 < vx sizeA + vx sizeB \<and>
      \<bar>vy posA - vy posB\<bar> * 2 < vy sizeA + vy sizeB \<and>
      \<bar>vz posA - vz posB\<bar> * 2 < vz sizeA + vz sizeB) \<and>
   (\<bar>vx posA - vx posB\<bar> * 2 = vx sizeA + vx sizeB \<or>
    \<bar>vy posA - vy posB\<bar> * 2 = vy sizeA + vy sizeB \<or>
    \<bar>vz posA - vz posB\<bar> * 2 = vz sizeA + vz sizeB
      \<longrightarrow> \<not> checkCollision posA sizeA posB sizeB)"
  by (auto simp: checkCollision_def)

text \<open>
  The car at \<open>z = 18.25\<close> touches the wall on the z axis and is within it on the other
  two: no overlap.
\<close>

theorem checkCollision_strict_witness:
  "\<bar>vz (Vec3 0 0 (73/4)) - vz wallPos\<bar> * 2 = vz carSize + vz wallSize \<and>
   \<bar>vx (Vec3 0 0 (73/4)) - vx wallPos\<bar> * 2 < vx carSize + vx wallSize \<and>
   \<bar>vy (Vec3 0 0 (73/4)) - vy wallPos\<bar> * 2 < vy carSize + vy wallSize \<and>
   \<not> checkCollision (Vec3 0 0 (73/4)) carSize wallPos wallSize"
proof -
  have touch: "\<bar>vz (Vec3 0 0 (73/4)) - vz wallPos\<bar> * 2 = vz carSize + vz wallSize"
    by (simp add: Vec3_def wallPos_def carSize_def wallSize_def)
  have "\<not> checkCollision (Vec3 0 0 (73/4)) carSize wallPos wallSize"
    using checkCollision_strict [of "Vec3 0 0 (73/4)" carSize wallPos wallSize] touch
    by blast
  with touch show ?thesis
    by (simp add: Vec3_def wallPos_def carSize_def wallSize_def)
qed

text \<open>
  The same test on the faces of the boxes: on each axis the lower face of either box is
  strictly below the upper face of the other.
\<close>

lemma checkCollision_faces:
  "checkCollision posA sizeA posB sizeB \<longleftrightarrow>
     (vx posA - vx sizeA / 2 < vx posB + vx sizeB / 2 \<and>
      vx posB - vx sizeB / 2 < vx posA + vx sizeA / 2) \<and>
     (vy posA - vy sizeA / 2 < vy posB + vy sizeB / 2 \<and>
      vy posB - vy sizeB / 2 < vy posA + vy sizeA / 2) \<and>
     (vz posA - vz sizeA / 2 < vz posB + vz sizeB / 2 \<and>
      vz posB - vz sizeB / 2 < vz posA + vz sizeA / 2)"
proof -
  have axis: "\<bar>a - b\<bar> * 2 < p + q \<longleftrightarrow> a - p / 2 < b + q / 2 \<and> b - q / 2 < a + p / 2"
    for a b p q :: real
    by (cases "a \<le> b") (auto simp: abs_if)
  show ?thesis
    unfolding checkCollision_def axis ..
qed

section \<open>Sustained forward input\<close>

text \<open>One frame with W held changes the speed as follows, once the result reaches 0.01.\<close>

lemma forward_frame_speed:
  assumes "keyW k" "\<not> keyS k" "1/100 \<le> carSpeed s + ACCELERATION * dt" "\<not> hitsWall k dt s"
  shows "carSpeed (frame k dt s) = min MAX_SPEED (carSpeed s + ACCELERATION * dt)"
  using assms
  by (simp add: frame_carSpeed frameSpeed_def update_speed_def apply_regime_def accelInput_def
      clamp_speed_forward)

text \<open>
  A run with W held, from a speed of at least 0.01 that is what \<open>T\<close> seconds of
  acceleration give, ends at the speed that \<open>T\<close> plus the time of the run gives.
\<close>

lemma forward_run_speed:
  "forwardHeld fs \<Longrightarrow> clearRun fs s \<Longrightarrow> 1/100 \<le> carSpeed s \<Longrightarrow>
   carSpeed s = min MAX_SPEED (ACCELERATION * T) \<Longrightarrow>
   carSpeed (run fs s) = min MAX_SPEED (ACCELERATION * (T + elapsed fs))"
proof (induction fs arbitrary: s T)
  case Nil
  then show ?case by simp
next
  case (Cons f fs)
  obtain k dt where f: "f = (k, dt)" by (cases f)
  from Cons.prems f have k: "keyW k" "\<not> keyS k" and dt: "0 \<le> dt" and held: "forwardHeld fs"
    by (simp_all add: forwardHeld_def)
  from Cons.prems f have clear: "\<not> hitsWall k dt s" "clearRun fs (frame k dt s)"
    by simp_all
  have acc: "0 \<le> ACCELERATION * dt"
    using dt by (simp add: ACCELERATION_def)
  with Cons.prems have low: "1/100 \<le> carSpeed s + ACCELERATION * dt"
    by linarith
  have step: "carSpeed (frame k dt s) = min MAX_SPEED (carSpeed s + ACCELERATION * dt)"
    using k low clear(1) by (rule forward_frame_speed)
  have eq: "carSpeed (frame k dt s) = min MAX_SPEED (ACCELERATION * (T + dt))"
    using step Cons.prems(4) acc by (simp add: algebra_simps min_def MAX_SPEED_def)
  have big: "1/100 \<le> carSpeed (frame k dt s)"
    using step low by (simp add: MAX_SPEED_def)
  have "carSpeed (run fs (frame k dt s)) =
        min MAX_SPEED (ACCELERATION * ((T + dt) + elapsed fs))"
    using held clear(2) big eq by (rule Cons.IH)
  then show ?case by (simp add: f add.assoc)
qed

text \<open>
  At 2500 frames per second a car at rest never starts: each frame adds 0.008 to the
  speed, which line 271 sets back to 0.
\<close>

lemma stalled_frame: "frame keysW (1/2500) initial = initial"
  by (simp add: eval_defs keysW_def initial_def)

lemma stalled_run: "run (replicate n (keysW, 1/2500)) initial = initial"
  by (induction n) (simp_all add: stalled_frame)

text \<open>
  Claim C4, as stated, fails. From the initial state, one frame of 0.4 milliseconds with
  W held and no wall in the way: the claim gives the speed \<open>min 12 (20 * 0.0004) = 0.008\<close>,
  the source gives 0, since line 271 zeroes every speed below 0.01.
\<close>

theorem sustained_forward_counterexample:
  "carSpeed initial = 0 \<and> forwardHeld shortFrame \<and> clearRun shortFrame initial \<and>
   carSpeed (run shortFrame initial) = 0 \<and>
   min MAX_SPEED (ACCELERATION * elapsed shortFrame) = 1/125"
  by (simp add: shortFrame_def forwardHeld_def eval_defs keysW_def initial_def)

text \<open>
  Claim C4, amended. From speed 0, with W held and S not held in every frame, no
  negative time step, no move rejected by the wall, and a first frame long enough for
  \<open>ACCELERATION * deltaTime\<close> to reach 0.01, the speed after the run is
  \<open>min MAX_SPEED (ACCELERATION * t)\<close> for the elapsed time \<open>t\<close>.
\<close>

theorem sustained_forward:
  assumes "carSpeed s = 0" and "forwardHeld fs" and "firstFrameMoves fs" and "clearRun fs s"
  shows "carSpeed (run fs s) = min MAX_SPEED (ACCELERATION * elapsed fs)"
proof (cases fs)
  case Nil
  with assms(1) show ?thesis by (simp add: MAX_SPEED_def)
next
  case (Cons f fs')
  obtain k dt where f: "f = (k, dt)" by (cases f)
  from assms Cons f have k: "keyW k" "\<not> keyS k" and held: "forwardHeld fs'"
    and low: "1/100 \<le> carSpeed s + ACCELERATION * dt"
    and clear: "\<not> hitsWall k dt s" "clearRun fs' (frame k dt s)"
    by (simp_all add: forwardHeld_def firstFrameMoves_def)
  have step: "carSpeed (frame k dt s) = min MAX_SPEED (ACCELERATION * (0 + dt))"
    using forward_frame_speed [OF k low clear(1)] assms(1) by simp
  have big: "1/100 \<le> carSpeed (frame k dt s)"
    using step low assms(1) by (simp add: MAX_SPEED_def)
  have "carSpeed (run fs' (frame k dt s)) =
        min MAX_SPEED (ACCELERATION * ((0 + dt) + elapsed fs'))"
    using held clear(2) big step by (rule forward_run_speed)
  then show ?thesis by (simp add: Cons f)
qed

text \<open>
  Two frames of half a second from the initial state: the speed is 10 after the first
  and 12, the maximum, after the second; the car is at \<open>z = 11\<close>, short of the wall.
\<close>

lemma twoHalves_first:
  "frame keysW (1/2) initial =
     \<lparr>carPos = Vec3 0 0 5, carYaw = 0, carSpeed = 10, cameraPos = Vec3 0 3 (-3)\<rparr>"
  by (simp add: eval_defs keysW_def initial_def)

theorem sustained_forward_witness:
  "carSpeed initial = 0 \<and> forwardHeld twoHalves \<and> firstFrameMoves twoHalves \<and>
   clearRun twoHalves initial \<and> carSpeed (run twoHalves initial) = 12 \<and>
   min MAX_SPEED (ACCELERATION * elapsed twoHalves) = 12"
proof -
  have s0: "carSpeed initial = 0"
    by (simp add: initial_def)
  have held: "forwardHeld twoHalves"
    by (simp add: forwardHeld_def twoHalves_def keysW_def)
  have first: "firstFrameMoves twoHalves"
    by (simp add: firstFrameMoves_def twoHalves_def ACCELERATION_def)
  have h1: "\<not> hitsWall keysW (1/2) initial"
    by (simp add: eval_defs keysW_def initial_def)
  have h2: "\<not> hitsWall keysW (1/2) (frame keysW (1/2) initial)"
    unfolding twoHalves_first by (simp add: eval_defs keysW_def)
  have clear: "clearRun twoHalves initial"
    using h1 h2 by (simp add: twoHalves_def)
  have m: "min MAX_SPEED (ACCELERATION * elapsed twoHalves) = 12"
    by (simp add: twoHalves_def MAX_SPEED_def ACCELERATION_def)
  from sustained_forward [OF s0 held first clear] s0 held first clear m
  show ?thesis by simp
qed

section \<open>The bounds of the speed\<close>














section \<open>The camera\<close>

text \<open>
  Claim C6. The camera position after a frame is the interpolation between the camera
  position before it and the desired position, which is the car's new position minus 8
  times its new forward direction plus \<open>(0, 3, 0)\<close>, with the factor
  \<open>clamp (cameraSmoothSpeed * deltaTime) 0 1\<close>. The factor is between 0 and 1, and when
  \<open>cameraSmoothSpeed * deltaTime\<close> is at least 1 the camera is at the desired position.
\<close>

theorem camera_follow:
  "cameraPos (frame k dt s) =
     mix (cameraPos s)
       (vadd (vsub (carPos (frame k dt s)) (vscale (forward (carYaw (frame k dt s))) 8))
          (Vec3 0 3 0))
       (clamp (cameraSmoothSpeed * dt) 0 1) \<and>
   0 \<le> clamp (cameraSmoothSpeed * dt) 0 1 \<and> clamp (cameraSmoothSpeed * dt) 0 1 \<le> 1 \<and>
   (cameraSmoothSpeed * dt \<ge> 1 \<longrightarrow>
      cameraPos (frame k dt s) =
        vadd (vsub (carPos (frame k dt s)) (vscale (forward (carYaw (frame k dt s))) 8))
          (Vec3 0 3 0))"
proof -
  have c: "clamp (cameraSmoothSpeed * dt) 0 1 = 1" if "cameraSmoothSpeed * dt \<ge> 1"
    using that by (simp add: clamp_def)
  show ?thesis
    using c by (simp add: frame_cameraPos desiredCameraPos_def mix_one) (simp add: clamp_def)
qed

text \<open>
  The car at rest at the origin, the camera at \<open>(40, 50, 60)\<close>, a frame of half a second:
  the camera lands on \<open>(0, 3, -8)\<close>, behind and above the car.
\<close>

theorem camera_follow_witness:
  "cameraSmoothSpeed * (1/2) \<ge> 1 \<and> cameraPos farCamera = Vec3 40 50 60 \<and>
   cameraPos (frame noKeys (1/2) farCamera) = Vec3 0 3 (-8)"
proof -
  have h: "cameraSmoothSpeed * (1/2) \<ge> 1"
    by (simp add: cameraSmoothSpeed_def)
  have p: "carPos (frame noKeys (1/2) farCamera) = Vec3 0 0 0"
    by (simp add: eval_defs noKeys_def farCamera_def)
  have y: "carYaw (frame noKeys (1/2) farCamera) = 0"
    by (simp add: eval_defs noKeys_def farCamera_def)
  from camera_follow [of noKeys "1/2" farCamera] h
  have "cameraPos (frame noKeys (1/2) farCamera) =
        vadd (vsub (carPos (frame noKeys (1/2) farCamera))
          (vscale (forward (carYaw (frame noKeys (1/2) farCamera))) 8)) (Vec3 0 3 0)"
    by blast
  then have "cameraPos (frame noKeys (1/2) farCamera) = Vec3 0 3 (-8)"
    unfolding p y by (simp add: forward_def radians_def Vec3_def vadd_def vsub_def vscale_def)
  with h show ?thesis by (simp add: farCamera_def)
qed

section \<open>A box against itself\<close>

text \<open>
  Claim C7, as stated, fails. A box whose three extents are -1 has no zero extent and is
  not reported as overlapping itself, since the test asks \<open>0 < size + size\<close> on each
  axis. Read as "the extents are not all zero" the claim fails on a flat box as well:
  extents \<open>(1, 0, 1)\<close> are not the zero vector, and the box does not overlap itself.
\<close>

theorem self_overlap_counterexample:
  "vx (Vec3 (-1) (-1) (-1)) \<noteq> 0 \<and> vy (Vec3 (-1) (-1) (-1)) \<noteq> 0 \<and>
   vz (Vec3 (-1) (-1) (-1)) \<noteq> 0 \<and>
   \<not> checkCollision (Vec3 0 0 0) (Vec3 (-1) (-1) (-1)) (Vec3 0 0 0) (Vec3 (-1) (-1) (-1)) \<and>
   Vec3 1 0 1 \<noteq> Vec3 0 0 0 \<and>
   \<not> checkCollision (Vec3 0 0 0) (Vec3 1 0 1) (Vec3 0 0 0) (Vec3 1 0 1)"
  by (simp add: checkCollision_def Vec3_def)

text \<open>
  Claim C7, amended. A box tested against itself overlaps exactly when each of its three
  extents is strictly positive.
\<close>

theorem self_overlap:
  "checkCollision pos ext pos ext \<longleftrightarrow> 0 < vx ext \<and> 0 < vy ext \<and> 0 < vz ext"
  by (simp add: checkCollision_def)

text \<open>Where no extent is negative, that is the same as no extent being zero.\<close>

lemma self_overlap_nonneg:
  "0 \<le> vx ext \<Longrightarrow> 0 \<le> vy ext \<Longrightarrow> 0 \<le> vz ext \<Longrightarrow>
   checkCollision pos ext pos ext \<longleftrightarrow> vx ext \<noteq> 0 \<and> vy ext \<noteq> 0 \<and> vz ext \<noteq> 0"
  by (auto simp: checkCollision_def)

section \<open>A frame that takes no time\<close>

text \<open>The traced operations compute the values of the untraced ones.\<close>

lemma fst_lit: "fst (lit x) = x"
  by (simp add: lit_def)

lemma fst_prim1: "fst (prim1 ops f a) = f (fst a)"
  by (simp add: prim1_def)

lemma fst_prim2: "fst (prim2 ops f a b) = f (fst a) (fst b)"
  by (simp add: prim2_def)

lemma fst_thenT: "fst (thenT m f) = fst (f (fst m))"
  by (simp add: thenT_def)

lemma fst_iteT: "fst (iteT c x y) = (if fst c then fst x else fst y)"
  by (simp add: iteT_def)

lemma fst_andT: "fst (andT a b) = (fst a \<and> fst b)"
  by (simp add: andT_def)

lemmas fst_traced =
  fst_lit fst_prim1 fst_prim2 fst_thenT fst_iteT fst_andT
  addT_def subT_def mulT_def negT_def ltT_def gtT_def geT_def fabsT_def sinT_def cosT_def
  vaddT_def vsubT_def vscaleT_def radiansT_def

lemma fst_checkCollisionT:
  "fst (checkCollisionT posA sizeA posB sizeB) = checkCollision posA sizeA posB sizeB"
  by (simp add: checkCollisionT_def axisT_def checkCollision_def fst_traced)

lemma fst_accelInputT: "fst (accelInputT k) = accelInput k"
  by (simp add: accelInputT_def accelInput_def fst_traced)

lemma fst_steerInputT: "fst (steerInputT k) = steerInput k"
  by (simp add: steerInputT_def steerInput_def fst_traced)

lemma fst_apply_regimeT: "fst (apply_regimeT a dt v) = apply_regime a dt v"
  by (simp add: apply_regimeT_def apply_regime_def fst_traced)

lemma fst_clamp_speedT: "fst (clamp_speedT v) = clamp_speed v"
  by (simp add: clamp_speedT_def clamp_speed_def fst_traced Let_def)

lemma fst_update_speedT: "fst (update_speedT a dt v) = update_speed a dt v"
  by (simp add: update_speedT_def update_speed_def fst_thenT fst_apply_regimeT
      fst_clamp_speedT)

lemma fst_update_yawT: "fst (update_yawT st v dt yaw) = update_yaw st v dt yaw"
  by (simp add: update_yawT_def turnAmountT_def update_yaw_def turnAmount_def fst_traced)

lemma fst_forwardT: "fst (forwardT yaw) = forward yaw"
  by (simp add: forwardT_def forward_def fst_traced)

lemma fst_desiredCameraPosT: "fst (desiredCameraPosT pos fwd) = desiredCameraPos pos fwd"
  by (simp add: desiredCameraPosT_def desiredCameraPos_def fst_traced)

lemma fst_clampT: "fst (clampT x lo hi) = clamp (fst x) (fst lo) (fst hi)"
  by (simp add: clampT_def)

lemma fst_mixT: "fst (mixT a b t) = mix (fst a) (fst b) (fst t)"
  by (simp add: mixT_def)

lemma fst_frameT: "fst (frameT k dt s) = frame k dt s"
  by (simp add: frameT_def frame_def Let_def fst_thenT fst_lit fst_accelInputT
      fst_steerInputT fst_update_speedT fst_update_yawT fst_forwardT fst_checkCollisionT
      fst_desiredCameraPosT fst_mixT fst_clampT fst_prim2 vaddT_def vscaleT_def mulT_def)

text \<open>No traced operation of the frame records a division.\<close>

lemma nd_lit: "OpDiv \<notin> set (snd (lit x))"
  by (simp add: lit_def)

lemma nd_prim1: "OpDiv \<notin> set ops \<Longrightarrow> OpDiv \<notin> set (snd a) \<Longrightarrow> OpDiv \<notin> set (snd (prim1 ops f a))"
  by (simp add: prim1_def)

lemma nd_prim2:
  "OpDiv \<notin> set ops \<Longrightarrow> OpDiv \<notin> set (snd a) \<Longrightarrow> OpDiv \<notin> set (snd b) \<Longrightarrow>
   OpDiv \<notin> set (snd (prim2 ops f a b))"
  by (simp add: prim2_def)

lemma nd_thenT:
  "OpDiv \<notin> set (snd m) \<Longrightarrow> (\<And>x. OpDiv \<notin> set (snd (f x))) \<Longrightarrow> OpDiv \<notin> set (snd (thenT m f))"
  by (simp add: thenT_def)

lemma nd_iteT:
  "OpDiv \<notin> set (snd c) \<Longrightarrow> OpDiv \<notin> set (snd x) \<Longrightarrow> OpDiv \<notin> set (snd y) \<Longrightarrow>
   OpDiv \<notin> set (snd (iteT c x y))"
  by (simp add: iteT_def)

lemma nd_andT:
  "OpDiv \<notin> set (snd a) \<Longrightarrow> OpDiv \<notin> set (snd b) \<Longrightarrow> OpDiv \<notin> set (snd (andT a b))"
  by (simp add: andT_def)

lemma nd_clampT:
  "OpDiv \<notin> set (snd x) \<Longrightarrow> OpDiv \<notin> set (snd lo) \<Longrightarrow> OpDiv \<notin> set (snd hi) \<Longrightarrow>
   OpDiv \<notin> set (snd (clampT x lo hi))"
  by (simp add: clampT_def)

lemma nd_mixT:
  "OpDiv \<notin> set (snd a) \<Longrightarrow> OpDiv \<notin> set (snd b) \<Longrightarrow> OpDiv \<notin> set (snd t) \<Longrightarrow>
   OpDiv \<notin> set (snd (mixT a b t))"
  by (simp add: mixT_def)

lemmas nd_ops =
  addT_def subT_def mulT_def negT_def ltT_def gtT_def geT_def fabsT_def sinT_def cosT_def
  vaddT_def vsubT_def vscaleT_def radiansT_def

lemmas nd_rules = nd_lit nd_prim1 nd_prim2 nd_iteT nd_andT nd_clampT nd_mixT

lemma nd_checkCollisionT: "OpDiv \<notin> set (snd (checkCollisionT posA sizeA posB sizeB))"
  unfolding checkCollisionT_def axisT_def nd_ops by (intro nd_rules) simp_all

lemma nd_accelInputT: "OpDiv \<notin> set (snd (accelInputT k))"
  by (simp add: accelInputT_def nd_ops lit_def prim2_def Let_def)

lemma nd_steerInputT: "OpDiv \<notin> set (snd (steerInputT k))"
  by (simp add: steerInputT_def nd_ops lit_def prim2_def Let_def)

lemma nd_apply_regimeT: "OpDiv \<notin> set (snd (apply_regimeT a dt v))"
  unfolding apply_regimeT_def nd_ops by (intro nd_rules) simp_all

lemma nd_clamp_speedT: "OpDiv \<notin> set (snd (clamp_speedT v))"
  unfolding clamp_speedT_def nd_ops by (intro nd_thenT nd_rules) simp_all

lemma nd_update_speedT: "OpDiv \<notin> set (snd (update_speedT a dt v))"
  unfolding update_speedT_def by (intro nd_thenT nd_apply_regimeT nd_clamp_speedT)

lemma nd_update_yawT: "OpDiv \<notin> set (snd (update_yawT st v dt yaw))"
  unfolding update_yawT_def turnAmountT_def nd_ops by (intro nd_thenT nd_rules) simp_all

lemma nd_forwardT: "OpDiv \<notin> set (snd (forwardT yaw))"
  unfolding forwardT_def nd_ops by (intro nd_rules) simp_all

lemma nd_desiredCameraPosT: "OpDiv \<notin> set (snd (desiredCameraPosT pos fwd))"
  unfolding desiredCameraPosT_def nd_ops by (intro nd_rules) simp_all

lemma nd_frameT: "OpDiv \<notin> set (snd (frameT k dt s))"
  unfolding frameT_def nd_ops
  by (intro nd_thenT nd_rules nd_accelInputT nd_steerInputT nd_update_speedT nd_update_yawT
      nd_forwardT nd_checkCollisionT nd_desiredCameraPosT) simp_all

text \<open>The division of line 303 is recorded, and is not part of the update.\<close>

lemma aspectT_divides: "aspectT = (16/9, [OpDiv])"
  by (simp add: aspectT_def divT_def prim2_def lit_def SCR_WIDTH_def SCR_HEIGHT_def)

text \<open>
  With no key pressed and no time passed, the car at rest at the origin: the operations
  of the frame, in order.
\<close>

lemma frameT_initial:
  "snd (frameT noKeys 0 initial) =
     [OpCmp, OpCmp, OpCmp, OpCmp] @
     [OpFabs, OpCmp, OpCmp, OpNeg, OpMul, OpCmp] @
     [OpCmp, OpMul, OpMul, OpMul, OpAdd] @
     [OpMul, OpSin, OpMul, OpCos] @
     [OpMul, OpMul, OpMul, OpMul, OpMul, OpMul, OpAdd, OpAdd, OpAdd] @
     [OpSub, OpFabs, OpMul, OpAdd, OpCmp] @
     [OpSub, OpFabs, OpMul, OpAdd, OpCmp] @
     [OpSub, OpFabs, OpMul, OpAdd, OpCmp] @
     [OpMul, OpMul, OpMul, OpSub, OpSub, OpSub, OpAdd, OpAdd, OpAdd] @
     [OpMul, OpCmp, OpCmp] @
     [OpSub, OpMul, OpMul, OpMul, OpMul, OpMul, OpMul, OpAdd, OpAdd, OpAdd] @
     [OpAdd, OpAdd, OpAdd]"
  by (simp add: Let_def frameT_def thenT_def iteT_def andT_def lit_def prim1_def prim2_def
      nd_ops clampT_def mixT_def accelInputT_def steerInputT_def update_speedT_def
      apply_regimeT_def clamp_speedT_def update_yawT_def turnAmountT_def forwardT_def
      checkCollisionT_def axisT_def desiredCameraPosT_def noKeys_def initial_def
      eval_defs)

text \<open>
  Claim C8. A frame with time step 0 moves nothing, from any state and with any keys:
  the tentative position is the current position, and the position, the heading and the
  camera position after the frame are those before it. The frame executes no division:
  the traced frame computes the state of the frame, and the operations it records at
  time step 0 (as at any other) are additions, subtractions, multiplications, unary
  minus, comparisons and calls of \<open>fabs\<close>, \<open>sin\<close> and \<open>cos\<close>, each defined on all its
  arguments, so the update always returns a state. The speed is the one thing such a
  frame can change: lines 271 to 274 and the wall test still apply to it.
\<close>

theorem zero_deltaTime:
  "nextPos k 0 s = carPos s \<and>
   carPos (frame k 0 s) = carPos s \<and>
   carYaw (frame k 0 s) = carYaw s \<and>
   cameraPos (frame k 0 s) = cameraPos s \<and>
   carSpeed (frame k 0 s) =
     (if checkCollision (carPos s) carSize wallPos wallSize then 0
      else clamp_speed (carSpeed s)) \<and>
   fst (frameT k 0 s) = frame k 0 s \<and>
   OpDiv \<notin> set (snd (frameT k 0 s))"
proof -
  have move: "nextPos k 0 s = carPos s \<and>
      carPos (frame k 0 s) = carPos s \<and>
      carYaw (frame k 0 s) = carYaw s \<and>
      cameraPos (frame k 0 s) = cameraPos s \<and>
      carSpeed (frame k 0 s) =
        (if checkCollision (carPos s) carSize wallPos wallSize then 0
         else clamp_speed (carSpeed s))"
    by (simp add: frame_def Let_def update_yaw_def turnAmount_def vadd_zero mix_zero
        clamp_def nextPos_def update_speed_def apply_regime_def)
  have nd: "OpDiv \<notin> set (snd (frameT k 0 s))"
    by (rule nd_frameT)
  from move nd show ?thesis
    by (simp only: fst_frameT) simp
qed

section \<open>Both accelerator keys\<close>

text \<open>
  Claim C9. With W and S both pressed the accelerator input is 0, as it is with neither
  pressed, and the frame gives the same state in both cases, for every time step and
  state and whatever the steering keys are; the speed update is the friction branch
  followed by lines 271 to 274.
\<close>

theorem both_accelerator_keys:
  "accelInput (k\<lparr>keyW := True, keyS := True\<rparr>) = 0 \<and>
   accelInput (k\<lparr>keyW := False, keyS := False\<rparr>) = 0 \<and>
   frame (k\<lparr>keyW := True, keyS := True\<rparr>) dt s =
     frame (k\<lparr>keyW := False, keyS := False\<rparr>) dt s \<and>
   frameSpeed (k\<lparr>keyW := True, keyS := True\<rparr>) dt s =
     clamp_speed (if carSpeed s > 0 then carSpeed s - FRICTION * dt
                  else if carSpeed s < 0 then carSpeed s + FRICTION * dt
                  else carSpeed s)"
  by (simp add: frame_def accelInput_def steerInput_def frameSpeed_def update_speed_def
      apply_regime_def Let_def)

section \<open>Steering against the wall\<close>

text \<open>
  Claim C10. In every frame the heading after the frame is the heading before it plus
  steering input times \<open>TURN_SPEED\<close> times the sign of the updated speed (+1 at speed 0)
  times the time step, whether or not the wall rejects the move. When it does, the
  position is unchanged and the speed is 0, and the heading has still changed by that
  amount. When the updated speed is 0 the heading changes by steering input times
  \<open>TURN_SPEED\<close> times the time step.
\<close>

theorem heading_despite_wall:
  "carYaw (frame k dt s) =
     carYaw s + steerInput k * (TURN_SPEED * (if frameSpeed k dt s \<ge> 0 then 1 else -1) * dt) \<and>
   (hitsWall k dt s \<longrightarrow> carPos (frame k dt s) = carPos s \<and> carSpeed (frame k dt s) = 0) \<and>
   (frameSpeed k dt s = 0 \<longrightarrow> carYaw (frame k dt s) = carYaw s + steerInput k * TURN_SPEED * dt)"
  by (simp add: frame_carYaw frame_carPos frame_carSpeed frameYaw_def update_yaw_def
      turnAmount_def)

text \<open>
  The car at rest with its front face on the wall, 9 degrees off. With W and A held for a
  tenth of a second the heading turns to 0, the move into the wall is rejected, and the
  car stays in place at speed 0. With A alone the speed stays 0 and the heading turns to
  0 as well.
\<close>

theorem heading_despite_wall_witness:
  "hitsWall keysWA (1/10) facingWall \<and>
   carYaw facingWall = - 9 \<and> carYaw (frame keysWA (1/10) facingWall) = 0 \<and>
   carPos (frame keysWA (1/10) facingWall) = carPos facingWall \<and>
   carSpeed (frame keysWA (1/10) facingWall) = 0 \<and>
   frameSpeed keysA (1/10) facingWall = 0 \<and>
   carYaw (frame keysA (1/10) facingWall) = 0"
proof -
  have hit: "hitsWall keysWA (1/10) facingWall"
    by (simp add: eval_defs keysWA_def facingWall_def)
  have rest: "frameSpeed keysA (1/10) facingWall = 0"
    by (simp add: eval_defs keysA_def facingWall_def)
  have st: "steerInput keysWA = 1" "steerInput keysA = 1"
    by (simp_all add: steerInput_def keysWA_def keysA_def)
  have y0: "carYaw facingWall = - 9"
    by (simp add: facingWall_def)
  have v: "frameSpeed keysWA (1/10) facingWall = 2"
    by (simp add: eval_defs keysWA_def facingWall_def)
  from heading_despite_wall [of keysWA "1/10" facingWall] hit
  have a: "carYaw (frame keysWA (1/10) facingWall) = 0 \<and>
           carPos (frame keysWA (1/10) facingWall) = carPos facingWall \<and>
           carSpeed (frame keysWA (1/10) facingWall) = 0"
    by (simp add: st v y0 TURN_SPEED_def)
  from heading_despite_wall [of keysA "1/10" facingWall] rest
  have b: "carYaw (frame keysA (1/10) facingWall) = 0"
    by (simp add: st y0 TURN_SPEED_def)
  from hit rest a b y0 show ?thesis by simp
qed

end
